theory Spec2Isabelle
  imports Complex_Main "HOL-Library.Multiset"
begin

section \<open>Floating-point values with an undefined element\<close>

text \<open>
  The pages compute on pandas objects of 64-bit floats. The embedding idealises a finite
  float to a real number and keeps the one distinction the pages depend on: a value is
  either a number or not-a-number. \<open>None\<close> is NaN. Arithmetic propagates it, and a
  comparison with it is false, as in Python. A quotient with divisor zero is not a number
  in the embedding (the source gives NaN or an infinity there); every statement below that
  reaches a division either guards the divisor or takes positive prices.
\<close>

type_synonym fval = "real option"

definition fadd :: "fval \<Rightarrow> fval \<Rightarrow> fval" where
  "fadd a b = (case a of None \<Rightarrow> None | Some x \<Rightarrow> (case b of None \<Rightarrow> None | Some y \<Rightarrow> Some (x + y)))"

definition fsub :: "fval \<Rightarrow> fval \<Rightarrow> fval" where
  "fsub a b = (case a of None \<Rightarrow> None | Some x \<Rightarrow> (case b of None \<Rightarrow> None | Some y \<Rightarrow> Some (x - y)))"

definition fmul :: "fval \<Rightarrow> fval \<Rightarrow> fval" where
  "fmul a b = (case a of None \<Rightarrow> None | Some x \<Rightarrow> (case b of None \<Rightarrow> None | Some y \<Rightarrow> Some (x * y)))"

definition fdiv :: "fval \<Rightarrow> fval \<Rightarrow> fval" where
  "fdiv a b = (case a of None \<Rightarrow> None
     | Some x \<Rightarrow> (case b of None \<Rightarrow> None | Some y \<Rightarrow> if y = 0 then None else Some (x / y)))"

section \<open>Series operations of pandas used by the pages\<close>

text \<open>
  A price series that reaches the metric functions holds numbers only: the risk page
  applies \<open>pd.to_numeric(...).dropna()\<close> before it calls them. \<open>pct_change\<close> gives
  NaN at the first position and \<open>p[i] / p[i-1] - 1\<close> after it.
\<close>

fun pct_change :: "real list \<Rightarrow> fval list" where
  "pct_change [] = []"
| "pct_change (p # ps) =
     None # map (\<lambda>(prev, cur). fsub (fdiv (Some cur) (Some prev)) (Some 1)) (zip (p # ps) ps)"

fun dropna :: "fval list \<Rightarrow> real list" where
  "dropna [] = []"
| "dropna (None # xs) = dropna xs"
| "dropna (Some x # xs) = x # dropna xs"

text \<open>\<open>Series.mean()\<close>: NaN on an empty series.\<close>

definition mean :: "real list \<Rightarrow> fval" where
  "mean xs = (if xs = [] then None else Some (sum_list xs / real (length xs)))"

text \<open>
  The standard deviation with \<open>ddof\<close> delta degrees of freedom: the square root of the
  sum of squared deviations from the mean over \<open>n - ddof\<close>, and NaN when \<open>n \<le> ddof\<close>.
  \<open>Series.std()\<close> has \<open>ddof = 1\<close>; \<open>np.std(series)\<close> hands \<open>ddof = 0\<close> to the same method.
\<close>

definition sum_sq_dev :: "real list \<Rightarrow> real" where
  "sum_sq_dev xs = (let m = sum_list xs / real (length xs) in sum_list (map (\<lambda>x. (x - m)\<^sup>2) xs))"

definition std :: "nat \<Rightarrow> real list \<Rightarrow> fval" where
  "std ddof xs = (if length xs \<le> ddof then None
                  else Some (sqrt (sum_sq_dev xs / real (length xs - ddof))))"

fun cumprod_from :: "real \<Rightarrow> real list \<Rightarrow> real list" where
  "cumprod_from a [] = []"
| "cumprod_from a (x # xs) = (a * x) # cumprod_from (a * x) xs"

definition cumprod :: "real list \<Rightarrow> real list" where
  "cumprod xs = cumprod_from 1 xs"

fun expanding_max_from :: "real \<Rightarrow> real list \<Rightarrow> real list" where
  "expanding_max_from m [] = []"
| "expanding_max_from m (x # xs) = max m x # expanding_max_from (max m x) xs"

fun expanding_max :: "real list \<Rightarrow> real list" where
  "expanding_max [] = []"
| "expanding_max (x # xs) = x # expanding_max_from x xs"

text \<open>\<open>Series.min()\<close> skips NaN and is NaN when nothing is left.\<close>

definition series_min :: "fval list \<Rightarrow> fval" where
  "series_min xs = (case dropna xs of [] \<Rightarrow> None | y # ys \<Rightarrow> Some (fold min ys y))"

section \<open>Risk metrics\<close>

text \<open>\<open>calculate_max_drawdown\<close>, the same text in \<open>_App.py\<close> and \<open>2_Risk_Metrics.py\<close>.\<close>

definition drawdown_series :: "real list \<Rightarrow> fval list" where
  "drawdown_series series =
     (let cumulative_returns = cumprod (map (\<lambda>r. 1 + r) (dropna (pct_change series)));
          peak = expanding_max cumulative_returns
      in map (\<lambda>(c, p). fsub (fdiv (Some c) (Some p)) (Some 1)) (zip cumulative_returns peak))"

definition calculate_max_drawdown :: "real list \<Rightarrow> fval" where
  "calculate_max_drawdown series = fmul (series_min (drawdown_series series)) (Some 100)"

text \<open>\<open>calculate_sharpe_ratio\<close> of \<open>2_Risk_Metrics.py\<close>.\<close>

definition sharpe_annualized_volatility :: "real list \<Rightarrow> fval" where
  "sharpe_annualized_volatility series =
     fmul (std 1 (dropna (pct_change series))) (Some (sqrt 252))"

definition calculate_sharpe_ratio :: "real list \<Rightarrow> real \<Rightarrow> fval" where
  "calculate_sharpe_ratio series risk_free_rate =
     (let daily_returns = dropna (pct_change series);
          annualized_return = fmul (mean daily_returns) (Some 252);
          annualized_volatility = sharpe_annualized_volatility series
      in if annualized_volatility = Some 0 then Some 0
         else fdiv (fsub annualized_return (Some risk_free_rate)) annualized_volatility)"

text \<open>The volatility card of \<open>_App.py\<close>: \<open>np.std(daily_change) * np.sqrt(252) * 100\<close>.\<close>

definition annualized_volatility :: "real list \<Rightarrow> fval" where
  "annualized_volatility close_prices =
     fmul (fmul (std 0 (dropna (pct_change close_prices))) (Some (sqrt 252))) (Some 100)"

section \<open>The risk page: one report row per asset, ranked\<close>

text \<open>
  \<open>base ** exponent\<close> on a NumPy float and a Python float. A positive base gives the real
  power. Base zero gives 0 for a positive, 1 for a zero and an infinity for a negative
  exponent. A negative base gives a number for a whole exponent only, NaN otherwise.
  A NaN base gives NaN, except for the exponent zero.
\<close>

definition fpow :: "fval \<Rightarrow> real \<Rightarrow> fval" where
  "fpow b e = (case b of None \<Rightarrow> (if e = 0 then Some 1 else None)
     | Some x \<Rightarrow>
         if 0 < x then Some (x powr e)
         else if x = 0 then (if 0 < e then Some 0 else if e = 0 then Some 1 else None)
         else if e = of_int \<lfloor>e\<rfloor>
              then Some ((if even \<lfloor>e\<rfloor> then 1 else - 1) * (\<bar>x\<bar> powr e))
              else None)"

record report_row =
  asset :: string
  sharpe_ratio :: fval
  annualized_return_pct :: fval
  maximum_drawdown :: fval
  sharpe_sort :: fval

text \<open>
  The \<open>for\<close> body of the risk page for one column holding at least one number. The table
  cells are the numbers themselves; the source prints each with two decimals.
  \<open>start_date\<close> and \<open>end_date\<close> are day numbers. The loop below reaches the body with a
  non-empty series only, where \<open>iloc[0]\<close> and \<open>iloc[-1]\<close> exist.
\<close>

definition total_return :: "real list \<Rightarrow> fval" where
  "total_return asset_series =
     fmul (fsub (fdiv (Some (last asset_series)) (Some (hd asset_series))) (Some 1)) (Some 100)"

definition days_elapsed :: "int \<Rightarrow> int \<Rightarrow> int" where
  "days_elapsed start_date end_date =
     (let days_diff = end_date - start_date in if days_diff = 0 then 1 else days_diff)"

definition annualized_return :: "real list \<Rightarrow> int \<Rightarrow> int \<Rightarrow> fval" where
  "annualized_return asset_series start_date end_date =
     fmul (fsub (fpow (fadd (Some 1) (fdiv (total_return asset_series) (Some 100)))
                      (365 / real_of_int (days_elapsed start_date end_date)))
                (Some 1))
          (Some 100)"

definition metric_row :: "string \<Rightarrow> real list \<Rightarrow> real \<Rightarrow> int \<Rightarrow> int \<Rightarrow> report_row" where
  "metric_row column asset_series risk_free_rate start_date end_date =
     (let sharpe = calculate_sharpe_ratio asset_series risk_free_rate;
          mdd = calculate_max_drawdown asset_series
      in \<lparr> asset = column, sharpe_ratio = sharpe,
           annualized_return_pct = annualized_return asset_series start_date end_date,
           maximum_drawdown = mdd, sharpe_sort = sharpe \<rparr>)"

text \<open>
  The loop over the columns of the fetched table, each a name with its cells: the missing
  cells are dropped, and a column with nothing left is skipped.
\<close>

fun results :: "(string \<times> fval list) list \<Rightarrow> real \<Rightarrow> int \<Rightarrow> int \<Rightarrow> report_row list" where
  "results [] risk_free_rate start_date end_date = []"
| "results ((column, vals) # rest) risk_free_rate start_date end_date =
     (let asset_series = dropna vals
      in if asset_series = [] then results rest risk_free_rate start_date end_date
         else metric_row column asset_series risk_free_rate start_date end_date
              # results rest risk_free_rate start_date end_date)"

text \<open>
  \<open>sort_values(by='Sharpe_Sort', ascending=False)\<close>: pandas puts the rows whose key is
  NaN last, reverses the others, sorts them ascending and reverses the outcome. The sort
  of at most sixteen keys is an insertion sort, which keeps equal keys in place; the page
  offers seven assets. A table built from no rows has no column \<open>Sharpe_Sort\<close>, and the
  call raises \<open>KeyError\<close>.
\<close>

datatype failure = KeyError | IndexError | Stopped

definition sort_key_of :: "report_row \<Rightarrow> real" where
  "sort_key_of r = (case sharpe_sort r of None \<Rightarrow> 0 | Some v \<Rightarrow> v)"

definition sort_values_descending :: "report_row list \<Rightarrow> report_row list" where
  "sort_values_descending rows =
     (let non_nans = filter (\<lambda>r. sharpe_sort r \<noteq> None) rows;
          nans = filter (\<lambda>r. sharpe_sort r = None) rows
      in rev (sort_key sort_key_of (rev non_nans)) @ nans)"

definition results_df ::
  "(string \<times> fval list) list \<Rightarrow> real \<Rightarrow> int \<Rightarrow> int \<Rightarrow> failure + report_row list" where
  "results_df data_df risk_free_rate start_date end_date =
     (let rows = results data_df risk_free_rate start_date end_date
      in if rows = [] then Inl KeyError else Inr (sort_values_descending rows))"

section \<open>The correlation page\<close>

text \<open>
  A table has column names, an index and one row of cells per index entry, each row with
  one cell per column. The fetched price table is indexed by day; a correlation matrix is
  indexed by the column names.
\<close>

record 'i frame =
  columns :: "string list"
  index :: "'i list"
  cells :: "fval list list"

definition well_formed :: "'i frame \<Rightarrow> bool" where
  "well_formed df \<longleftrightarrow>
     length (cells df) = length (index df)
     \<and> list_all (\<lambda>r. length r = length (columns df)) (cells df)"

text \<open>\<open>DataFrame.empty\<close>: some axis has length zero.\<close>

definition frame_empty :: "'i frame \<Rightarrow> bool" where
  "frame_empty df \<longleftrightarrow> cells df = [] \<or> columns df = []"

definition complete_row :: "fval list \<Rightarrow> bool" where
  "complete_row r = list_all (\<lambda>c. c \<noteq> None) r"

text \<open>\<open>DataFrame.dropna()\<close>: the rows with a missing cell go, with their index entries.\<close>

definition dropna_rows :: "'i frame \<Rightarrow> 'i frame" where
  "dropna_rows df =
     (let kept = filter (\<lambda>(t, r). complete_row r) (zip (index df) (cells df))
      in df\<lparr> index := map fst kept, cells := map snd kept \<rparr>)"

definition column_of :: "'i frame \<Rightarrow> nat \<Rightarrow> fval list" where
  "column_of df j = map (\<lambda>r. r ! j) (cells df)"

text \<open>
  \<open>DataFrame.corr(method='pearson')\<close>, with its default of one observation at least.
  For the columns \<open>x\<close> and \<open>y\<close> of a pair it goes through the rows where both are
  present and accumulates the means, the two sums of squared deviations and the sum of
  products of deviations; the entry is the last over the square root of the product of
  the first two, and NaN when that root is zero or no row is present in both. It fills
  the entries \<open>(x, y)\<close> and \<open>(y, x)\<close> with the one number computed for \<open>y \<le> x\<close>.
\<close>

fun complete_pairs :: "(fval \<times> fval) list \<Rightarrow> (real \<times> real) list" where
  "complete_pairs [] = []"
| "complete_pairs ((Some x, Some y) # rest) = (x, y) # complete_pairs rest"
| "complete_pairs (_ # rest) = complete_pairs rest"

definition sum_dev_products :: "real list \<Rightarrow> real list \<Rightarrow> real" where
  "sum_dev_products xs ys =
     (let meanx = sum_list xs / real (length xs); meany = sum_list ys / real (length ys)
      in sum_list (map (\<lambda>(x, y). (x - meanx) * (y - meany)) (zip xs ys)))"

definition nancorr_pair :: "fval list \<Rightarrow> fval list \<Rightarrow> fval" where
  "nancorr_pair xcol ycol =
     (let ps = complete_pairs (zip xcol ycol); nobs = length ps
      in if nobs < 1 then None
         else let ssqdm_x = sum_sq_dev (map fst ps); ssqdm_y = sum_sq_dev (map snd ps);
                  covxy = sum_dev_products (map fst ps) (map snd ps);
                  divisor = sqrt (ssqdm_x * ssqdm_y)
              in if divisor \<noteq> 0 then Some (covxy / divisor) else None)"

definition corr_pearson :: "'i frame \<Rightarrow> string frame" where
  "corr_pearson df =
     (let n = length (columns df)
      in \<lparr> columns = columns df, index = columns df,
           cells = map (\<lambda>i. map (\<lambda>j. nancorr_pair (column_of df (max i j)) (column_of df (min i j)))
                               [0..<n]) [0..<n] \<rparr>)"

text \<open>
  \<open>scipy.stats.spearmanr(a, axis=0)\<close> on a table without missing cells, given as its
  columns and its number of rows. With at most one row the result is the scalar NaN. The
  function then looks at the columns 0 and 1, which raises \<open>IndexError\<close> on a table of
  one column, and returns the scalar NaN when either is constant. Otherwise every column
  is replaced by its ranks (ties share the average rank) and \<open>np.corrcoef\<close> is applied:
  the covariance over the square roots of the two variances, clipped to \<open>[-1, 1]\<close>. For two
  columns the result is the scalar at position \<open>(1, 0)\<close>, for more the matrix.
  Rounding is not part of the embedding. In floating point the two successive divisions
  leave a diagonal entry within a unit in the last place of 1, and an entry within that
  of its transpose; so no statement below says that a Spearman matrix is symmetric or
  has a unit diagonal.
\<close>

datatype spearman_result = Scalar fval | Matrix "fval list list"

definition rankdata :: "real list \<Rightarrow> real list" where
  "rankdata xs =
     map (\<lambda>x. real (length (filter (\<lambda>y. y < x) xs))
               + (real (length (filter (\<lambda>y. y = x) xs)) + 1) / 2) xs"

definition cov :: "real list \<Rightarrow> real list \<Rightarrow> real" where
  "cov xs ys = sum_dev_products xs ys / real (length xs - 1)"

definition fclip :: "fval \<Rightarrow> fval" where
  "fclip a = (case a of None \<Rightarrow> None | Some x \<Rightarrow> Some (max (- 1) (min 1 x)))"

definition corr_entry :: "real list \<Rightarrow> real list \<Rightarrow> fval" where
  "corr_entry x y =
     fclip (fdiv (fdiv (Some (cov x y)) (Some (sqrt (cov x x)))) (Some (sqrt (cov y y))))"

definition corrcoef :: "real list list \<Rightarrow> fval list list" where
  "corrcoef vars = map (\<lambda>x. map (\<lambda>y. corr_entry x y) vars) vars"

definition constant_column :: "real list \<Rightarrow> bool" where
  "constant_column xs = list_all (\<lambda>x. x = hd xs) xs"

definition spearmanr :: "real list list \<Rightarrow> nat \<Rightarrow> failure + spearman_result" where
  "spearmanr a n_obs =
     (if n_obs \<le> 1 then Inr (Scalar None)
      else if length a < 2 then Inl IndexError
      else if constant_column (a ! 0) \<or> constant_column (a ! 1) then Inr (Scalar None)
      else let rs = corrcoef (map rankdata a)
           in if length a = 2 then Inr (Scalar (rs ! 1 ! 0)) else Inr (Matrix rs))"

datatype corr_method = Pearson | Spearman

text \<open>
  \<open>calculate_correlation\<close>. A scalar handed to \<open>pd.DataFrame\<close> with an index and
  columns fills every cell; no data at all leaves every cell NaN.
\<close>

definition labelled :: "string list \<Rightarrow> fval list list \<Rightarrow> string frame" where
  "labelled names m = \<lparr> columns = names, index = names, cells = m \<rparr>"

definition filled :: "string list \<Rightarrow> fval \<Rightarrow> string frame" where
  "filled names v = labelled names (replicate (length names) (replicate (length names) v))"

definition calculate_correlation :: "'i frame \<Rightarrow> corr_method \<Rightarrow> failure + string frame" where
  "calculate_correlation df method =
     (case method of
        Spearman \<Rightarrow>
          (let df_cleaned = dropna_rows df
           in if frame_empty df_cleaned then Inr (filled (columns df) None)
              else (case spearmanr (map (\<lambda>j. dropna (column_of df_cleaned j))
                                        [0..<length (columns df_cleaned)])
                                   (length (cells df_cleaned)) of
                      Inl e \<Rightarrow> Inl e
                    | Inr (Scalar corr_matrix) \<Rightarrow> Inr (filled (columns df_cleaned) corr_matrix)
                    | Inr (Matrix corr_matrix) \<Rightarrow> Inr (labelled (columns df_cleaned) corr_matrix)))
      | Pearson \<Rightarrow> Inr (corr_pearson df))"

text \<open>
  The page around it: it stops with a message when fewer than two assets are selected, or
  when the fetched table is empty or has fewer than two columns, and shows the matrix of
  \<open>calculate_correlation\<close> otherwise.
\<close>

definition correlation_page ::
  "string list \<Rightarrow> 'i frame \<Rightarrow> corr_method \<Rightarrow> failure + string frame" where
  "correlation_page selected_assets data_df correlation_method =
     (if length selected_assets < 2 then Inl Stopped
      else if frame_empty data_df \<or> length (columns data_df) < 2 then Inl Stopped
      else calculate_correlation data_df correlation_method)"

section \<open>Notions used to state the properties\<close>

text \<open>The returns of a series, as real numbers: \<open>p[i] / p[i-1] - 1\<close> from the second point on.\<close>

fun returns_of :: "real list \<Rightarrow> real list" where
  "returns_of [] = []"
| "returns_of [p] = []"
| "returns_of (p # q # ps) = (q / p - 1) # returns_of (q # ps)"


text \<open>
  The rows a correlation entry is computed over: the rows without any missing cell, and
  the rows in which the two columns of a pair are present.
\<close>

definition listwise_rows :: "'i frame \<Rightarrow> fval list list" where
  "listwise_rows df = filter complete_row (cells df)"

definition pairwise_rows :: "'i frame \<Rightarrow> nat \<Rightarrow> nat \<Rightarrow> fval list list" where
  "pairwise_rows df i j = filter (\<lambda>r. r ! i \<noteq> None \<and> r ! j \<noteq> None) (cells df)"

text \<open>
  The numbers of a column in the rows without any missing cell, and their ranks; the pairs
  of numbers of two columns in the rows where both are present.
\<close>

definition complete_values :: "'i frame \<Rightarrow> nat \<Rightarrow> real list" where
  "complete_values df j = map (\<lambda>r. the (r ! j)) (listwise_rows df)"

definition rank_column :: "'i frame \<Rightarrow> nat \<Rightarrow> real list" where
  "rank_column df j = rankdata (complete_values df j)"

definition pair_values :: "'i frame \<Rightarrow> nat \<Rightarrow> nat \<Rightarrow> (real \<times> real) list" where
  "pair_values df a b = map (\<lambda>r. (the (r ! a), the (r ! b))) (pairwise_rows df a b)"


text \<open>
  Pearson's coefficient of a list of pairs of numbers, with the operations in the order of
  pandas: the sum of products of deviations over the square root of the product of the
  two sums of squared deviations; undefined for no pair and for a root of zero.
\<close>

definition pearson_of_pairs :: "(real \<times> real) list \<Rightarrow> fval" where
  "pearson_of_pairs ps =
     (if ps = [] then None
      else let divisor = sqrt (sum_sq_dev (map fst ps) * sum_sq_dev (map snd ps))
           in if divisor \<noteq> 0
              then Some (sum_dev_products (map fst ps) (map snd ps) / divisor)
              else None)"

text \<open>
  The Spearman matrix written out on the rows of the input table that have no missing
  cell. It is undefined throughout when at most one such row exists or when the first or
  the second asset does not vary on these rows. Otherwise its entry for two assets is the
  coefficient of their rank columns; for exactly two assets every cell holds the one
  coefficient of the second with the first.
\<close>

definition spearman_degenerate :: "'i frame \<Rightarrow> bool" where
  "spearman_degenerate df \<longleftrightarrow>
     length (listwise_rows df) \<le> 1
     \<or> constant_column (complete_values df 0) \<or> constant_column (complete_values df 1)"

definition spearman_on_complete_rows :: "'i frame \<Rightarrow> string frame" where
  "spearman_on_complete_rows df =
     (let n = length (columns df)
      in if spearman_degenerate df then filled (columns df) None
         else if n = 2
         then filled (columns df) (corr_entry (rank_column df 1) (rank_column df 0))
         else labelled (columns df)
                (map (\<lambda>i. map (\<lambda>j. corr_entry (rank_column df i) (rank_column df j)) [0..<n])
                     [0..<n]))"



section \<open>Example tables\<close>

text \<open>
  Two assets with no day in common; two assets on three common days; a varying and a
  constant asset; three assets, the third missing on the first day; three assets with
  unevenly spaced prices, the second missing on the first day; three assets, the first
  constant; and asset \<open>A\<close> quoted on
  the days 1 to 5 with asset \<open>B\<close> quoted on the days 3 to 7.
\<close>

definition df_gaps :: "nat frame" where
  "df_gaps = \<lparr> columns = [''A'', ''B''], index = [1, 2],
               cells = [[Some 1, None], [None, Some 2]] \<rparr>"

definition df_two :: "nat frame" where
  "df_two = \<lparr> columns = [''A'', ''B''], index = [1, 2, 3],
               cells = [[Some 1, Some 1], [Some 2, Some 3], [Some 3, Some 2]] \<rparr>"


definition df_three :: "nat frame" where
  "df_three = \<lparr> columns = [''A'', ''B'', ''C''], index = [1, 2, 3, 4],
                 cells = [[Some 1, Some 1, None], [Some 2, Some 3, Some 1],
                          [Some 3, Some 2, Some 2], [Some 4, Some 4, Some 3]] \<rparr>"

definition df_ranked :: "nat frame" where
  "df_ranked = \<lparr> columns = [''A'', ''B'', ''C''], index = [1, 2, 3, 4],
                  cells = [[Some 100, None, Some 0], [Some 1, Some 5, Some 3],
                           [Some 2, Some 1, Some 30], [Some 10, Some 7, Some 300]] \<rparr>"


definition df_days :: "nat frame" where
  "df_days = \<lparr> columns = [''A'', ''B''], index = [1, 2, 3, 4, 5, 6, 7],
                cells = [[Some 10, None], [Some 11, None], [Some 12, Some 20], [Some 13, Some 22],
                         [Some 14, Some 21], [None, Some 23], [None, Some 24]] \<rparr>"

section \<open>Facts about the arithmetic and the series operations\<close>

lemma fadd_simps [simp]:
  "fadd None b = None" "fadd a None = None" "fadd (Some x) (Some y) = Some (x + y)"
  by (simp_all add: fadd_def split: option.splits)

lemma fsub_simps [simp]:
  "fsub None b = None" "fsub a None = None" "fsub (Some x) (Some y) = Some (x - y)"
  by (simp_all add: fsub_def split: option.splits)

lemma fmul_simps [simp]:
  "fmul None b = None" "fmul a None = None" "fmul (Some x) (Some y) = Some (x * y)"
  by (simp_all add: fmul_def split: option.splits)

lemma fdiv_simps [simp]:
  "fdiv None b = None" "fdiv a None = None"
  "fdiv (Some x) (Some y) = (if y = 0 then None else Some (x / y))"
  by (simp_all add: fdiv_def split: option.splits)

lemma length_dropna_le: "length (dropna xs) \<le> length xs"
  by (induction xs rule: dropna.induct) simp_all

lemma dropna_pct_change_short: "length (dropna (pct_change xs)) \<le> length xs - 1"
proof (cases xs)
  case Nil
  then show ?thesis by simp
next
  case (Cons p ps)
  have "length (dropna (pct_change (p # ps))) \<le> length (zip (p # ps) ps)"
    using length_dropna_le
      [of "map (\<lambda>(prev, cur). fsub (fdiv (Some cur) (Some prev)) (Some 1)) (zip (p # ps) ps)"]
    by simp
  then show ?thesis using Cons by simp
qed

lemma returns_100_110_99: "dropna (pct_change [100, 110, 99]) = [1/10, -(1/10)]"
  by simp

lemma returns_100_100_100: "dropna (pct_change [100, 100, 100]) = [0, 0]"
  by simp

lemma sum_sq_dev_tenths: "sum_sq_dev [1/10, -(1/10)] = 2/100"
  by (simp add: sum_sq_dev_def power2_eq_square)

section \<open>Sharpe ratio\<close>

text \<open>
  Claim C1, as the code has it. With \<open>rs\<close> the returns of the series: when the sample
  standard deviation \<open>s\<close> of \<open>rs\<close> is a number other than zero, the mean \<open>m\<close> of \<open>rs\<close> is a
  number and \<open>calculate_sharpe_ratio\<close> returns \<open>(m * 252 - risk_free_rate) / (s * sqrt 252)\<close>;
  when the annualized volatility is the number zero, it returns 0.0; and for a series of
  one or two points, whose sample standard deviation is NaN and not zero, it returns NaN.
\<close>

theorem sharpe_ratio_formula:
  assumes "rs = dropna (pct_change series)"
  shows "(std 1 rs = Some s \<and> s \<noteq> 0 \<longrightarrow>
            (\<exists>m. mean rs = Some m \<and>
               calculate_sharpe_ratio series rf = Some ((m * 252 - rf) / (s * sqrt 252))))
       \<and> (sharpe_annualized_volatility series = Some 0 \<longrightarrow>
            calculate_sharpe_ratio series rf = Some 0)
       \<and> (length series \<le> 2 \<longrightarrow> calculate_sharpe_ratio series rf = None)"
proof (intro conjI impI)
  assume a: "std 1 rs = Some s \<and> s \<noteq> 0"
  then have ne: "rs \<noteq> []" by (auto simp: std_def split: if_splits)
  then obtain m where m: "mean rs = Some m" by (simp add: mean_def)
  have "calculate_sharpe_ratio series rf = Some ((m * 252 - rf) / (s * sqrt 252))"
    using a m assms
    by (simp add: calculate_sharpe_ratio_def sharpe_annualized_volatility_def)
  with m show "\<exists>m. mean rs = Some m \<and>
               calculate_sharpe_ratio series rf = Some ((m * 252 - rf) / (s * sqrt 252))"
    by blast
next
  assume "sharpe_annualized_volatility series = Some 0"
  then show "calculate_sharpe_ratio series rf = Some 0"
    by (simp add: calculate_sharpe_ratio_def)
next
  assume "length series \<le> 2"
  then have "length (dropna (pct_change series)) \<le> 1"
    using dropna_pct_change_short[of series] by simp
  then have "std 1 (dropna (pct_change series)) = None" by (simp add: std_def)
  then show "calculate_sharpe_ratio series rf = None"
    by (simp add: calculate_sharpe_ratio_def sharpe_annualized_volatility_def)
qed

theorem sharpe_ratio_formula_witness:
  "calculate_sharpe_ratio [100, 110, 99] (4/100)
     = Some ((0 * 252 - 4/100) / (sqrt (1/50) * sqrt 252))
   \<and> calculate_sharpe_ratio [100, 100, 100] (4/100) = Some 0
   \<and> calculate_sharpe_ratio [100] (4/100) = None"
proof -
  have s: "std 1 [1/10, -(1/10)] = Some (sqrt (1/50)) \<and> sqrt (1/50) \<noteq> (0::real)"
    by (simp add: std_def sum_sq_dev_tenths)
  have m: "mean [1/10, -(1/10)] = Some (0::real)" by (simp add: mean_def)
  have v: "sharpe_annualized_volatility [100, 100, 100] = Some 0"
    unfolding sharpe_annualized_volatility_def returns_100_100_100
    by (simp add: std_def sum_sq_dev_def)
  have l: "length [100::real] \<le> 2" by simp
  from sharpe_ratio_formula[OF returns_100_110_99[symmetric], of "sqrt (1/50)" "4/100"] s m
  have 1: "calculate_sharpe_ratio [100, 110, 99] (4/100)
             = Some ((0 * 252 - 4/100) / (sqrt (1/50) * sqrt 252))"
    by auto
  from sharpe_ratio_formula[OF returns_100_100_100[symmetric], of 0 "4/100"] v
  have 2: "calculate_sharpe_ratio [100, 100, 100] (4/100) = Some 0" by blast
  from sharpe_ratio_formula[OF refl, of "[100]" 0 "4/100"] l
  have 3: "calculate_sharpe_ratio [100] (4/100) = None" by blast
  from 1 2 3 show ?thesis by blast
qed

text \<open>
  The claim as the specification words it counts the single-point series among those
  with volatility zero and Sharpe ratio 0.0. On the series \<open>[100]\<close>, and on the constant
  series \<open>[100, 100]\<close>, the volatility is NaN and so is the returned ratio.
\<close>

theorem sharpe_degenerate_counterexample:
  "sharpe_annualized_volatility [100] = None
   \<and> calculate_sharpe_ratio [100] (4/100) = None
   \<and> calculate_sharpe_ratio [100, 100] (4/100) = None"
  by (simp add: calculate_sharpe_ratio_def sharpe_annualized_volatility_def std_def)

section \<open>The two volatilities\<close>

lemma std_conventions_differ:
  assumes "2 \<le> length xs" "sum_sq_dev xs \<noteq> 0"
  shows "std 0 xs \<noteq> std 1 xs"
proof -
  have n: "real (length xs) \<noteq> real (length xs - 1)" "real (length xs) \<noteq> 0"
    "real (length xs - 1) \<noteq> 0"
    using assms(1) by auto
  have "sum_sq_dev xs / real (length xs) \<noteq> sum_sq_dev xs / real (length xs - 1)"
    using assms(2) n by (simp add: field_simps)
  then show ?thesis using assms(1) by (simp add: std_def)
qed

text \<open>
  Claim C3 asks that the dashboard's volatility and the one inside \<open>calculate_sharpe_ratio\<close>
  agree up to the factor 100. On the prices \<open>[100, 110, 99]\<close>, with returns \<open>0.1\<close> and
  \<open>-0.1\<close>, the dashboard divides the sum of squared deviations by 2 and the Sharpe ratio
  divides it by 1, and the two volatilities differ.
\<close>

theorem volatility_conventions_diverge:
  "annualized_volatility [100, 110, 99] = Some (sqrt (1/100) * sqrt 252 * 100)
   \<and> fmul (sharpe_annualized_volatility [100, 110, 99]) (Some 100)
       = Some (sqrt (1/50) * sqrt 252 * 100)
   \<and> annualized_volatility [100, 110, 99]
       \<noteq> fmul (sharpe_annualized_volatility [100, 110, 99]) (Some 100)"
proof -
  have a: "annualized_volatility [100, 110, 99] = Some (sqrt (1/100) * sqrt 252 * 100)"
    unfolding annualized_volatility_def returns_100_110_99
    by (simp add: std_def sum_sq_dev_tenths)
  have b: "fmul (sharpe_annualized_volatility [100, 110, 99]) (Some 100)
             = Some (sqrt (1/50) * sqrt 252 * 100)"
    unfolding sharpe_annualized_volatility_def returns_100_110_99
    by (simp add: std_def sum_sq_dev_tenths)
  have "sqrt (1/100) \<noteq> sqrt (1/50)" by simp
  then have "sqrt (1/100) * sqrt 252 * 100 \<noteq> sqrt (1/50) * sqrt 252 * 100" by simp
  with a b show ?thesis by simp
qed

section \<open>Maximum drawdown\<close>

text \<open>
  Claim C4 asks for a drawdown of zero exactly on the non-decreasing price series. The
  running peak of the code starts at the first cumulative return, that is at the second
  price, so a fall from the first price is never seen: on \<open>[100, 50, 100]\<close> and on
  \<open>[100, 50]\<close> the function returns 0, and the fall from 120 to 60 is reported as -50.
\<close>

theorem max_drawdown_misses_first_price:
  "calculate_max_drawdown [100, 50, 100] = Some 0
   \<and> calculate_max_drawdown [100, 50] = Some 0
   \<and> calculate_max_drawdown [100, 120, 60] = Some (- 50)"
  by (simp add: calculate_max_drawdown_def drawdown_series_def series_min_def cumprod_def)

section \<open>The metrics on positive prices\<close>

lemma dropna_map_Some: "dropna (map Some xs) = xs"
  by (induction xs) simp_all

lemma pct_change_positive:
  "\<forall>p\<in>set s. 0 < p \<Longrightarrow> dropna (pct_change s) = returns_of s"
proof (induction s rule: returns_of.induct)
  case (3 p q ps)
  then have "dropna (pct_change (q # ps)) = returns_of (q # ps)" by simp
  moreover have "p \<noteq> 0" using 3 by simp 
  ultimately show ?case by simp
qed simp_all

lemma length_returns_of: "length (returns_of s) = length s - 1"
  by (induction s rule: returns_of.induct) simp_all

lemma returns_of_growth_positive:
  "\<forall>p\<in>set s. 0 < p \<Longrightarrow> \<forall>g\<in>set (map (\<lambda>r. 1 + r) (returns_of s)). 0 < g"
  by (induction s rule: returns_of.induct) simp_all

lemma cumprod_from_positive:
  "0 < a \<Longrightarrow> \<forall>g\<in>set gs. 0 < g \<Longrightarrow> \<forall>c\<in>set (cumprod_from a gs). 0 < c"
proof (induction gs arbitrary: a)
  case Nil
  then show ?case by simp
next
  case (Cons g gs)
  have "0 < a * g" using Cons.prems by simp
  with Cons.IH[of "a * g"] Cons.prems show ?case by simp
qed

lemma length_cumprod_from: "length (cumprod_from a gs) = length gs"
  by (induction gs arbitrary: a) simp_all

lemma expanding_max_from_positive:
  "0 < m \<Longrightarrow> \<forall>c\<in>set (expanding_max_from m cs). 0 < c"
proof (induction cs arbitrary: m)
  case Nil
  then show ?case by simp
next
  case (Cons x cs)
  have "0 < max m x" using Cons.prems by (simp add: less_max_iff_disj)
  with Cons.IH[of "max m x"] Cons.prems show ?case by (simp add: less_max_iff_disj)
qed

lemma length_expanding_max_from: "length (expanding_max_from m cs) = length cs"
  by (induction cs arbitrary: m) simp_all

lemma expanding_max_positive:
  "\<forall>c\<in>set cs. 0 < c \<Longrightarrow> \<forall>c\<in>set (expanding_max cs). 0 < c"
proof (cases cs)
  case Nil
  then show ?thesis by simp
next
  case (Cons x xs)
  assume "\<forall>c\<in>set cs. 0 < c"
  then have "0 < x" using Cons by simp
  with expanding_max_from_positive[of x xs] Cons show ?thesis by simp
qed

lemma length_expanding_max: "length (expanding_max cs) = length cs"
  by (cases cs) (simp_all add: length_expanding_max_from)

lemma dropna_quotients:
  "\<forall>p\<in>set ps. p \<noteq> 0 \<Longrightarrow> length cs = length ps \<Longrightarrow>
   dropna (map (\<lambda>(c, p). fsub (fdiv (Some c) (Some p)) (Some 1)) (zip cs ps))
     = map (\<lambda>(c, p). c / p - 1) (zip cs ps)"
  by (induction cs ps rule: list_induct2') simp_all

lemma series_min_defined: "dropna xs \<noteq> [] \<Longrightarrow> \<exists>v. series_min xs = Some v"
  by (simp add: series_min_def split: list.splits)

lemma max_drawdown_defined:
  assumes "2 \<le> length s" "\<forall>p\<in>set s. 0 < p"
  shows "\<exists>v. calculate_max_drawdown s = Some v"
proof -
  let ?cs = "cumprod (map (\<lambda>r. 1 + r) (returns_of s))"
  have cs: "\<forall>c\<in>set ?cs. 0 < c"
    unfolding cumprod_def
    by (rule cumprod_from_positive) (use returns_of_growth_positive[OF assms(2)] in simp_all)
  then have "\<forall>p\<in>set (expanding_max ?cs). 0 < p" by (rule expanding_max_positive)
  then have pk: "\<forall>p\<in>set (expanding_max ?cs). p \<noteq> 0" by fastforce
  have len: "length ?cs = length s - 1"
    by (simp add: cumprod_def length_cumprod_from length_returns_of)
  have "dropna (drawdown_series s) = map (\<lambda>(c, p). c / p - 1) (zip ?cs (expanding_max ?cs))"
    unfolding drawdown_series_def Let_def pct_change_positive[OF assms(2)]
    by (rule dropna_quotients[OF pk]) (simp add: length_expanding_max)
  moreover have "length (zip ?cs (expanding_max ?cs)) = length s - 1"
    using len by (simp add: length_expanding_max)
  ultimately have "length (dropna (drawdown_series s)) = length s - 1" by simp
  then have "dropna (drawdown_series s) \<noteq> []"
    using assms(1) by auto
  from series_min_defined[OF this] show ?thesis
    by (auto simp: calculate_max_drawdown_def)
qed

lemma sharpe_ratio_defined:
  assumes "3 \<le> length s" "\<forall>p\<in>set s. 0 < p"
  shows "\<exists>v. calculate_sharpe_ratio s rf = Some v"
proof -
  have "2 \<le> length (returns_of s)" using assms(1) by (simp add: length_returns_of)
  then obtain sd where sd: "std 1 (returns_of s) = Some sd" and ne: "returns_of s \<noteq> []"
    by (fastforce simp: std_def)
  show ?thesis
    using sd ne
    by (simp add: calculate_sharpe_ratio_def sharpe_annualized_volatility_def
        pct_change_positive[OF assms(2)] mean_def Let_def)
qed

lemma annualized_return_defined:
  assumes "s \<noteq> []" "\<forall>p\<in>set s. 0 < p"
  shows "\<exists>v. annualized_return s a b = Some v"
proof -
  have h: "0 < hd s" and l: "0 < last s" using assms by simp_all
  have "1 + ((last s / hd s - 1) * 100) / 100 = last s / hd s"
    by (simp add: diff_divide_distrib)
  with h l have b: "0 < 1 + ((last s / hd s - 1) * 100) / 100" by simp
  show ?thesis using h b by (simp add: annualized_return_def total_return_def fpow_def)
qed

lemma single_point_row:
  assumes "p \<noteq> 0"
  shows "metric_row c [p] rf a b = \<lparr> asset = c, sharpe_ratio = None, annualized_return_pct = Some 0,
           maximum_drawdown = None, sharpe_sort = None \<rparr>"
  using assms
  by (simp add: metric_row_def calculate_sharpe_ratio_def sharpe_annualized_volatility_def std_def
     calculate_max_drawdown_def drawdown_series_def series_min_def cumprod_def annualized_return_def
     total_return_def fpow_def)

lemma hd_last_pos:
  assumes "s \<noteq> []" "\<forall>p\<in>set s. 0 < p"
  shows "0 < hd s" "0 < last s"
  using assms by simp_all

section \<open>Maximum drawdown on positive prices\<close>

text \<open>
  On positive prices the drawdown is a number and never positive. On two prices it is 0,
  whatever the second price is: the only peak the code sees is the second price.
\<close>

lemma expanding_max_from_ge:
  "length cs = length (expanding_max_from m cs)
   \<and> (\<forall>(c, p)\<in>set (zip cs (expanding_max_from m cs)). c \<le> p)"
proof (induction cs arbitrary: m)
  case Nil
  then show ?case by simp
next
  case (Cons x cs)
  from Cons[of "max m x"] show ?case by simp
qed

lemma expanding_max_ge: "\<forall>(c, p)\<in>set (zip cs (expanding_max cs)). c \<le> p"
proof (cases cs)
  case Nil
  then show ?thesis by simp
next
  case (Cons x xs)
  with expanding_max_from_ge[of xs x] show ?thesis by simp
qed

lemma fold_min_in: "fold min ys y \<in> set (y # ys)" for y :: real
proof (induction ys arbitrary: y)
  case Nil
  then show ?case by simp
next
  case (Cons a ys)
  from Cons[of "min a y"] show ?case by (auto simp: min_def split: if_splits)
qed

lemma series_min_in: "series_min xs = Some v \<Longrightarrow> v \<in> set (dropna xs)"
  using fold_min_in by (auto simp: series_min_def split: list.splits)

lemma max_drawdown_nonpositive:
  assumes "2 \<le> length s" "\<forall>p\<in>set s. 0 < p"
  shows "\<exists>v. calculate_max_drawdown s = Some v \<and> v \<le> 0"
proof -
  let ?cs = "cumprod (map (\<lambda>r. 1 + r) (returns_of s))"
  have cs: "\<forall>c\<in>set ?cs. 0 < c"
    unfolding cumprod_def
    by (rule cumprod_from_positive) (use returns_of_growth_positive[OF assms(2)] in simp_all)
  then have pk: "\<forall>p\<in>set (expanding_max ?cs). 0 < p" by (rule expanding_max_positive)
  then have pk0: "\<forall>p\<in>set (expanding_max ?cs). p \<noteq> 0" by fastforce
  have d: "dropna (drawdown_series s) = map (\<lambda>(c, p). c / p - 1) (zip ?cs (expanding_max ?cs))"
    unfolding drawdown_series_def Let_def pct_change_positive[OF assms(2)]
    by (rule dropna_quotients[OF pk0]) (simp add: length_expanding_max)
  obtain w where w: "series_min (drawdown_series s) = Some w"
    using max_drawdown_defined[OF assms]
    by (cases "series_min (drawdown_series s)") (auto simp: calculate_max_drawdown_def)
  from series_min_in[OF w] d obtain c p where
    cp: "(c, p) \<in> set (zip ?cs (expanding_max ?cs))" and wv: "w = c / p - 1"
    by auto
  from cp have "p \<in> set (expanding_max ?cs)" by (rule set_zip_rightD)
  with pk have "0 < p" by simp
  moreover from cp expanding_max_ge[of ?cs] have "c \<le> p" by auto
  ultimately have "w \<le> 0" using wv by simp
  with w show ?thesis by (simp add: calculate_max_drawdown_def mult_le_0_iff)
qed

lemma max_drawdown_two_points:
  assumes "0 < p" "0 < q"
  shows "calculate_max_drawdown [p, q] = Some 0"
  using assms
  by (simp add: calculate_max_drawdown_def drawdown_series_def series_min_def cumprod_def)

section \<open>Annualized return\<close>

text \<open>
  Claim C8. For a series of positive prices with at least one point, the total return is
  \<open>(last / first - 1) * 100\<close> and the annualized return is
  \<open>((1 + total_return / 100) ^ (365 / days_elapsed) - 1) * 100\<close>, where \<open>days_elapsed\<close> is
  the number of days from the start to the end date, replaced by 1 when it is 0; with
  equal dates the exponent is 365 and the computation yields a number.
\<close>

theorem annualized_return_formula:
  assumes "asset_series \<noteq> []" and "\<forall>p\<in>set asset_series. 0 < p"
  shows "total_return asset_series = Some ((last asset_series / hd asset_series - 1) * 100)
       \<and> annualized_return asset_series start_date end_date
           = Some (((1 + ((last asset_series / hd asset_series - 1) * 100) / 100)
                      powr (365 / real_of_int (if end_date - start_date = 0 then 1
                                                else end_date - start_date)) - 1) * 100)
       \<and> annualized_return asset_series start_date start_date
           = Some (((1 + ((last asset_series / hd asset_series - 1) * 100) / 100) powr 365 - 1) * 100)"
proof -
  have h: "0 < hd asset_series" and l: "0 < last asset_series"
    using hd_last_pos[OF assms] by simp_all
  have t: "total_return asset_series = Some ((last asset_series / hd asset_series - 1) * 100)"
    using h by (simp add: total_return_def)
  have "1 + ((last asset_series / hd asset_series - 1) * 100) / 100
          = last asset_series / hd asset_series"
    by (simp add: diff_divide_distrib)
  with h l have b: "0 < 1 + ((last asset_series / hd asset_series - 1) * 100) / 100"
    by simp
  have a: "annualized_return asset_series x y
           = Some (((1 + ((last asset_series / hd asset_series - 1) * 100) / 100)
                      powr (365 / real_of_int (days_elapsed x y)) - 1) * 100)" for x y
    unfolding annualized_return_def t using b by (simp add: fpow_def)
  show ?thesis using t a[of start_date end_date] a[of start_date start_date]
    by (simp add: days_elapsed_def)
qed

theorem annualized_return_formula_witness:
  "annualized_return [100, 121] 7 7 = Some (((1 + ((121 / 100 - 1) * 100) / 100) powr 365 - 1) * 100)"
proof -
  have "[100, 121::real] \<noteq> [] \<and> (\<forall>p\<in>set [100, 121::real]. 0 < p)" by simp
  with annualized_return_formula[of "[100, 121]" 7 7] show ?thesis by simp
qed

section \<open>Report rows\<close>

text \<open>
  Claim C6, as the code has it. No computation of the report fails on a short series. A
  column without a number is skipped and gives no row. A column with exactly one number
  (other than zero) gives a row whose Sharpe ratio and maximum drawdown are NaN and whose
  annualized return is 0. A column with at least three numbers, all positive, gives a
  row whose Sharpe ratio, annualized return and maximum drawdown are numbers.
\<close>

theorem report_rows_never_fail:
  "(dropna vals = [] \<longrightarrow>
      results ((c, vals) # rest) rf a b = results rest rf a b)
   \<and> (dropna vals = [p] \<and> p \<noteq> 0 \<longrightarrow>
      results ((c, vals) # rest) rf a b
        = \<lparr> asset = c, sharpe_ratio = None, annualized_return_pct = Some 0,
            maximum_drawdown = None, sharpe_sort = None \<rparr> # results rest rf a b)
   \<and> (3 \<le> length (dropna vals) \<and> (\<forall>p\<in>set (dropna vals). 0 < p) \<longrightarrow>
      (\<exists>row sh ar md. results ((c, vals) # rest) rf a b = row # results rest rf a b
          \<and> asset row = c \<and> sharpe_ratio row = Some sh \<and> sharpe_sort row = Some sh
          \<and> annualized_return_pct row = Some ar \<and> maximum_drawdown row = Some md))"
proof (intro conjI impI)
  assume "dropna vals = []"
  then show "results ((c, vals) # rest) rf a b = results rest rf a b" by simp
next
  assume "dropna vals = [p] \<and> p \<noteq> 0"
  then show "results ((c, vals) # rest) rf a b
        = \<lparr> asset = c, sharpe_ratio = None, annualized_return_pct = Some 0,
            maximum_drawdown = None, sharpe_sort = None \<rparr> # results rest rf a b"
    using single_point_row[of p c rf a b] by simp
next
  assume h: "3 \<le> length (dropna vals) \<and> (\<forall>p\<in>set (dropna vals). 0 < p)"
  let ?s = "dropna vals"
  have ne: "?s \<noteq> []" using h by auto
  obtain sh where sh: "calculate_sharpe_ratio ?s rf = Some sh"
    using sharpe_ratio_defined[of ?s rf] h by blast
  obtain md where md: "calculate_max_drawdown ?s = Some md"
    using max_drawdown_defined[of ?s] h by auto
  obtain ar where ar: "annualized_return ?s a b = Some ar"
    using annualized_return_defined[OF ne, of a b] h by blast
  have "results ((c, vals) # rest) rf a b = metric_row c ?s rf a b # results rest rf a b"
    using ne by (simp add: Let_def)
  then show "\<exists>row sh ar md. results ((c, vals) # rest) rf a b = row # results rest rf a b
          \<and> asset row = c \<and> sharpe_ratio row = Some sh \<and> sharpe_sort row = Some sh
          \<and> annualized_return_pct row = Some ar \<and> maximum_drawdown row = Some md"
    using sh md ar by (simp add: metric_row_def Let_def)
qed

theorem report_rows_never_fail_witness:
  "results [(''A'', [None])] (4/100) 0 365 = []
   \<and> results [(''A'', [Some 100])] (4/100) 0 365
       = [\<lparr> asset = ''A'', sharpe_ratio = None, annualized_return_pct = Some 0,
            maximum_drawdown = None, sharpe_sort = None \<rparr>]
   \<and> (\<exists>row sh ar md. results [(''A'', [Some 100, Some 110, Some 99])] (4/100) 0 365 = [row]
          \<and> asset row = ''A'' \<and> sharpe_ratio row = Some sh \<and> sharpe_sort row = Some sh
          \<and> annualized_return_pct row = Some ar \<and> maximum_drawdown row = Some md)"
proof -
  have 1: "results [(''A'', [None])] (4/100) 0 365 = []"
    using report_rows_never_fail
      [where vals = "[None]" and c = "''A''" and rest = "[]" and rf = "4/100" and a = 0 and b = 365] by simp
  have 2: "results [(''A'', [Some 100])] (4/100) 0 365
       = [\<lparr> asset = ''A'', sharpe_ratio = None, annualized_return_pct = Some 0,
            maximum_drawdown = None, sharpe_sort = None \<rparr>]"
    using report_rows_never_fail
      [where vals = "[Some 100]" and p = 100 and c = "''A''" and rest = "[]" and rf = "4/100"
         and a = 0 and b = 365] by simp
  have 3: "\<exists>row sh ar md. results [(''A'', [Some 100, Some 110, Some 99])] (4/100) 0 365 = [row]
          \<and> asset row = ''A'' \<and> sharpe_ratio row = Some sh \<and> sharpe_sort row = Some sh
          \<and> annualized_return_pct row = Some ar \<and> maximum_drawdown row = Some md"
    using report_rows_never_fail
      [where vals = "[Some 100, Some 110, Some 99]" and c = "''A''" and rest = "[]"
         and rf = "4/100" and a = 0 and b = 365]
    by simp
  from 1 2 3 show ?thesis by blast
qed

text \<open>
  The claim as the specification words it has the computation fail on a series of fewer
  than two points and no NaN reach the report. For a column holding the single price 100
  the page builds the table without failing, with NaN as Sharpe ratio and as drawdown.
\<close>

theorem report_single_point_counterexample:
  "results_df [(''A'', [Some 100])] (4/100) 0 365
     = Inr [\<lparr> asset = ''A'', sharpe_ratio = None, annualized_return_pct = Some 0,
              maximum_drawdown = None, sharpe_sort = None \<rparr>]"
  by (simp add: results_df_def metric_row_def calculate_sharpe_ratio_def
      sharpe_annualized_volatility_def std_def sum_sq_dev_def calculate_max_drawdown_def
      drawdown_series_def series_min_def cumprod_def annualized_return_def total_return_def
      fpow_def sort_values_descending_def sort_key_of_def days_elapsed_def Let_def)

section \<open>Ranking\<close>







section \<open>Tables and their rows\<close>

lemma columns_dropna_rows [simp]: "columns (dropna_rows df) = columns df"
  by (simp add: dropna_rows_def Let_def)

lemma map_snd_filter_zip:
  "length ts = length rs \<Longrightarrow> map snd (filter (\<lambda>(t, r). P r) (zip ts rs)) = filter P rs"
  by (induction ts rs rule: list_induct2) simp_all

lemma cells_dropna_rows:
  "well_formed df \<Longrightarrow> cells (dropna_rows df) = listwise_rows df"
  by (simp add: dropna_rows_def Let_def well_formed_def listwise_rows_def map_snd_filter_zip)

lemma dropna_rows_idem: "dropna_rows (dropna_rows df) = dropna_rows df"
  by (simp add: dropna_rows_def Let_def zip_map_fst_snd)

lemma complete_row_iff: "complete_row r \<longleftrightarrow> None \<notin> set r"
  unfolding complete_row_def list_all_iff by metis

lemma complete_pairs_columns:
  "complete_pairs (map (\<lambda>r. (r ! a, r ! b)) rows)
     = map (\<lambda>r. (the (r ! a), the (r ! b))) (filter (\<lambda>r. r ! a \<noteq> None \<and> r ! b \<noteq> None) rows)"
proof (induction rows)
  case Nil
  then show ?case by simp
next
  case (Cons r rows)
  then show ?case by (cases "r ! a"; cases "r ! b") simp_all
qed

lemma zip_columns:
  "zip (column_of df a) (column_of df b) = map (\<lambda>r. (r ! a, r ! b)) (cells df)"
  by (simp add: column_of_def zip_map_map) (induction "cells df"; simp add: zip_same_conv_map)

lemma pairs_of_columns:
  "complete_pairs (zip (column_of df a) (column_of df b))
     = map (\<lambda>r. (the (r ! a), the (r ! b))) (pairwise_rows df a b)"
  by (simp add: zip_columns complete_pairs_columns pairwise_rows_def)



lemma corr_pearson_entry:
  assumes "i < length (columns df)" "j < length (columns df)"
  shows "cells (corr_pearson df) ! i ! j
           = nancorr_pair (column_of df (max i j)) (column_of df (min i j))"
  using assms by (simp add: corr_pearson_def Let_def)




lemma index_dropna_rows:
  "index (dropna_rows df) = map fst (filter (\<lambda>(t, r). None \<notin> set r) (zip (index df) (cells df)))"
  by (simp add: dropna_rows_def Let_def complete_row_iff[abs_def])

lemma spearmanr_no_failure:
  "2 \<le> length a \<Longrightarrow> \<exists>r. spearmanr a n = Inr r"
  by (simp add: spearmanr_def Let_def)

lemma calculate_correlation_no_failure:
  assumes "2 \<le> length (columns df)"
  shows "\<exists>m. calculate_correlation df method = Inr m"
proof (cases "method")
  case Pearson
  then show ?thesis by (simp add: calculate_correlation_def)
next
  case Spearman
  let ?a = "map (\<lambda>j. dropna (column_of (dropna_rows df) j)) [0..<length (columns (dropna_rows df))]"
  have "2 \<le> length ?a" using assms by simp
  from spearmanr_no_failure[OF this, of "length (cells (dropna_rows df))"]
  obtain r where r: "spearmanr ?a (length (cells (dropna_rows df))) = Inr r" by blast
  show ?thesis using Spearman r
    by (cases r) (simp_all add: calculate_correlation_def Let_def)
qed











lemma corrcoef_table:
  "corrcoef vars = map (\<lambda>i. map (\<lambda>j. corr_entry (vars ! i) (vars ! j)) [0..<length vars]) [0..<length vars]"
proof -
  have "corrcoef vars = map (\<lambda>x. map (\<lambda>y. corr_entry x y) vars) vars"
    by (simp add: corrcoef_def)
  also have "\<dots> = map (\<lambda>i. map (\<lambda>j. corr_entry (vars ! i) (vars ! j)) [0..<length vars])
                      [0..<length vars]"
    by (auto intro!: nth_equalityI)
  finally show ?thesis .
qed



lemma length_rankdata [simp]: "length (rankdata xs) = length xs"
  by (simp add: rankdata_def)

lemma corrcoef_entry:
  "i < length vars \<Longrightarrow> j < length vars \<Longrightarrow> corrcoef vars ! i ! j = corr_entry (vars ! i) (vars ! j)"
  by (simp add: corrcoef_table)

lemma dropna_present_column:
  "\<forall>r\<in>set rows. r ! j \<noteq> None \<Longrightarrow>
   dropna (map (\<lambda>r. r ! j) rows) = map (\<lambda>r. the (r ! j)) rows"
proof (induction rows)
  case Nil
  then show ?case by simp
next
  case (Cons r rows)
  then show ?case by (cases "r ! j") simp_all
qed

lemma listwise_rows_present:
  assumes "well_formed df" "j < length (columns df)" "r \<in> set (listwise_rows df)"
  shows "r ! j \<noteq> None"
proof -
  from assms(3) have r: "r \<in> set (cells df)" and c: "None \<notin> set r"
    by (simp_all add: listwise_rows_def complete_row_iff)
  from r assms(1) have "length r = length (columns df)"
    by (simp add: well_formed_def list_all_iff)
  with assms(2) have "r ! j \<in> set r" by simp
  with c show ?thesis by metis
qed

lemma cleaned_column:
  assumes "well_formed df" "j < length (columns df)"
  shows "dropna (column_of (dropna_rows df) j) = complete_values df j"
  unfolding column_of_def cells_dropna_rows[OF assms(1)] complete_values_def
  by (rule dropna_present_column) (use listwise_rows_present[OF assms] in blast)

lemma length_complete_values [simp]: "length (complete_values df j) = length (listwise_rows df)"
  by (simp add: complete_values_def)

lemma length_rank_column [simp]: "length (rank_column df j) = length (listwise_rows df)"
  by (simp add: rank_column_def)

lemma cleaned_columns:
  assumes "well_formed df"
  shows "map (\<lambda>j. dropna (column_of (dropna_rows df) j)) [0..<length (columns df)]
           = map (complete_values df) [0..<length (columns df)]"
  by (rule map_cong[OF refl]) (simp add: cleaned_column[OF assms])

lemma spearman_value:
  assumes "well_formed df" "2 \<le> length (columns df)"
  shows "calculate_correlation df Spearman = Inr (spearman_on_complete_rows df)"
proof -
  let ?n = "length (columns df)"
  let ?a = "map (complete_values df) [0..<?n]"
  let ?k = "length (listwise_rows df)"
  have p0: "0 < ?n" and p1: "1 < ?n" using assms(2) by linarith+
  have a0: "?a ! 0 = complete_values df 0" using p0 by (simp del: upt_Suc)
  have a1: "?a ! 1 = complete_values df 1" using p1 by (simp del: upt_Suc)
  have vars: "map rankdata ?a = map (rank_column df) [0..<?n]"
    by (simp add: rank_column_def comp_def)
  have cc: "calculate_correlation df Spearman
        = (if frame_empty (dropna_rows df) then Inr (filled (columns df) None)
           else (case spearmanr ?a ?k of
                   Inl e \<Rightarrow> Inl e
                 | Inr (Scalar v) \<Rightarrow> Inr (filled (columns df) v)
                 | Inr (Matrix m) \<Rightarrow> Inr (labelled (columns df) m)))"
    by (simp add: calculate_correlation_def Let_def cleaned_columns[OF assms(1)]
        cells_dropna_rows[OF assms(1)] split: sum.splits spearman_result.splits)
  have fe: "frame_empty (dropna_rows df) \<longleftrightarrow> listwise_rows df = []"
    using assms(2) by (auto simp: frame_empty_def cells_dropna_rows[OF assms(1)])
  show ?thesis
  proof (cases "spearman_degenerate df")
    case True
    then have "frame_empty (dropna_rows df) \<or> spearmanr ?a ?k = Inr (Scalar None)"
      using assms(2) a0 a1 by (auto simp: spearman_degenerate_def spearmanr_def fe)
    then have "calculate_correlation df Spearman = Inr (filled (columns df) None)"
      unfolding cc by auto
    with True show ?thesis by (simp add: spearman_on_complete_rows_def)
  next
    case False
    then have k: "\<not> ?k \<le> 1" and c0: "\<not> constant_column (complete_values df 0)"
      and c1: "\<not> constant_column (complete_values df 1)"
      by (simp_all add: spearman_degenerate_def)
    from k have nfe: "\<not> frame_empty (dropna_rows df)" by (auto simp: fe)
    show ?thesis
    proof (cases "?n = 2")
      case True
      have "spearmanr ?a ?k = Inr (Scalar (corrcoef (map rankdata ?a) ! 1 ! 0))"
        using k c0 c1 a0 a1 True by (simp add: spearmanr_def Let_def)
      moreover have "corrcoef (map rankdata ?a) ! 1 ! 0
                       = corr_entry (rank_column df 1) (rank_column df 0)"
        unfolding vars using True by (subst corrcoef_entry) simp_all
      ultimately have "calculate_correlation df Spearman
         = Inr (filled (columns df) (corr_entry (rank_column df 1) (rank_column df 0)))"
        unfolding cc using nfe by simp
      with True False show ?thesis by (simp add: spearman_on_complete_rows_def)
    next
      case n3: False
      have "spearmanr ?a ?k = Inr (Matrix (corrcoef (map rankdata ?a)))"
        using k c0 c1 a0 a1 n3 assms(2) by (simp add: spearmanr_def Let_def)
      moreover have "corrcoef (map rankdata ?a)
           = map (\<lambda>i. map (\<lambda>j. corr_entry (rank_column df i) (rank_column df j)) [0..<?n]) [0..<?n]"
        unfolding vars corrcoef_table by (auto intro!: nth_equalityI)
      ultimately have "calculate_correlation df Spearman
         = Inr (labelled (columns df)
             (map (\<lambda>i. map (\<lambda>j. corr_entry (rank_column df i) (rank_column df j)) [0..<?n]) [0..<?n]))"
        unfolding cc using nfe by simp
      with n3 False show ?thesis by (simp add: spearman_on_complete_rows_def Let_def)
    qed
  qed
qed

lemma nancorr_pair_pairs:
  "nancorr_pair xcol ycol = pearson_of_pairs (complete_pairs (zip xcol ycol))"
  by (auto simp: nancorr_pair_def pearson_of_pairs_def Let_def)

lemma pearson_entry:
  assumes "i < length (columns df)" "j < length (columns df)"
  shows "cells (corr_pearson df) ! i ! j = pearson_of_pairs (pair_values df (max i j) (min i j))"
  by (simp add: corr_pearson_entry[OF assms] nancorr_pair_pairs pairs_of_columns pair_values_def)





















lemma sqrt_25: "sqrt 25 = 5"
  by (rule real_sqrt_unique) simp_all

lemma labelled_simps [simp]:
  "columns (labelled ns x) = ns" "index (labelled ns x) = ns" "cells (labelled ns x) = x"
  by (simp_all add: labelled_def)

lemma filled_simps [simp]:
  "columns (filled ns v) = ns" "index (filled ns v) = ns"
  "cells (filled ns v) = replicate (length ns) (replicate (length ns) v)"
  by (simp_all add: filled_def)

lemma df_three_listwise:
  "listwise_rows df_three = [[Some 2, Some 3, Some 1], [Some 3, Some 2, Some 2], [Some 4, Some 4, Some 3]]"
  by (simp add: listwise_rows_def df_three_def complete_row_def)

lemma df_three_values:
  "complete_values df_three 0 = [2, 3, 4]"
  "complete_values df_three (Suc 0) = [3, 2, 4]"
  "complete_values df_three (Suc (Suc 0)) = [1, 2, 3]"
  by (simp_all add: complete_values_def df_three_listwise)

lemma df_three_ranks:
  "rank_column df_three 0 = [1, 2, 3]"
  "rank_column df_three (Suc 0) = [2, 1, 3]"
  "rank_column df_three (Suc (Suc 0)) = [1, 2, 3]"
  by (simp_all add: rank_column_def df_three_values rankdata_def)

lemma corr_entry_examples:
  "corr_entry [1, 2, 3] [1, 2, 3] = Some 1"
  "corr_entry [2, 1, 3] [2, 1, 3] = Some 1"
  "corr_entry [1, 2, 3] [2, 1, 3] = Some (1/2)"
  "corr_entry [2, 1, 3] [1, 2, 3] = Some (1/2)"
  "corr_entry [1, 3, 2] [1, 2, 3] = Some (1/2)"
  by (simp_all add: corr_entry_def cov_def sum_dev_products_def fclip_def Let_def)

lemma df_three_not_degenerate: "\<not> spearman_degenerate df_three"
  by (simp add: spearman_degenerate_def df_three_listwise df_three_values constant_column_def)

lemma df_three_spearman:
  "spearman_on_complete_rows df_three
     = \<lparr> columns = [''A'', ''B'', ''C''], index = [''A'', ''B'', ''C''],
         cells = [[Some 1, Some (1/2), Some 1], [Some (1/2), Some 1, Some (1/2)],
                  [Some 1, Some (1/2), Some 1]] \<rparr>"
proof -
  have c: "columns df_three = [''A'', ''B'', ''C'']" by (simp add: df_three_def)
  show ?thesis
    by (simp add: spearman_on_complete_rows_def df_three_not_degenerate c df_three_ranks
        corr_entry_examples labelled_def)
qed





lemma df_days_wf: "well_formed df_days"
  by (simp add: well_formed_def df_days_def)

lemma df_days_listwise:
  "listwise_rows df_days = [[Some 12, Some 20], [Some 13, Some 22], [Some 14, Some 21]]"
  by (simp add: listwise_rows_def df_days_def complete_row_def)

lemma df_days_spearman:
  "spearman_on_complete_rows df_days = filled [''A'', ''B''] (Some (1/2))"
proof -
  have c: "columns df_days = [''A'', ''B'']" by (simp add: df_days_def)
  have v: "complete_values df_days 0 = [12, 13, 14]"
    "complete_values df_days (Suc 0) = [20, 22, 21]"
    by (simp_all add: complete_values_def df_days_listwise)
  have r: "rank_column df_days 0 = [1, 2, 3]" "rank_column df_days (Suc 0) = [1, 3, 2]"
    by (simp_all add: rank_column_def v rankdata_def)
  have d: "\<not> spearman_degenerate df_days"
    by (simp add: spearman_degenerate_def df_days_listwise v constant_column_def)
  show ?thesis
    by (simp add: spearman_on_complete_rows_def d c r corr_entry_examples)
qed

lemma spearman_entry:
  assumes "well_formed df" "3 \<le> length (columns df)" "\<not> spearman_degenerate df"
    and "i < length (columns df)" "j < length (columns df)"
  shows "\<exists>m. calculate_correlation df Spearman = Inr m
           \<and> cells m ! i ! j = corr_entry (rank_column df i) (rank_column df j)"
proof -
  have "2 \<le> length (columns df)" using assms(2) by simp
  from spearman_value[OF assms(1) this] assms(2-5) show ?thesis
    by (simp add: spearman_on_complete_rows_def Let_def)
qed

lemma listwise_rows_filter: "listwise_rows df = filter (\<lambda>r. None \<notin> set r) (cells df)"
  by (simp add: listwise_rows_def complete_row_iff[abs_def])

lemma pearson_value_entry:
  assumes "i < length (columns df)" "j < length (columns df)"
  shows "\<exists>m. calculate_correlation df Pearson = Inr m
           \<and> cells m ! i ! j = pearson_of_pairs (pair_values df (max i j) (min i j))"
  by (simp add: calculate_correlation_def pearson_entry[OF assms])

lemma df_three_cleaned_wf: "well_formed (dropna_rows df_three)"
  by (simp add: well_formed_def dropna_rows_def df_three_def complete_row_def)


lemma spearman_few_rows:
  assumes "well_formed df" "2 \<le> length (columns df)" "length (listwise_rows df) \<le> 1"
  shows "calculate_correlation df Spearman = Inr (filled (columns df) None)"
  using spearman_value[OF assms(1,2)] assms(3)
  by (simp add: spearman_on_complete_rows_def spearman_degenerate_def)

lemma df_three_pearson_matrix:
  "corr_pearson df_three
     = \<lparr> columns = [''A'', ''B'', ''C''], index = [''A'', ''B'', ''C''],
         cells = [[Some 1, Some (4/5), Some 1], [Some (4/5), Some 1, Some (1/2)],
                  [Some 1, Some (1/2), Some 1]] \<rparr>"
  by (simp add: corr_pearson_def nancorr_pair_def column_of_def df_three_def Let_def
      sum_sq_dev_def sum_dev_products_def power2_eq_square sqrt_25)

lemma df_three_cleaned:
  "dropna_rows df_three
     = \<lparr> columns = [''A'', ''B'', ''C''], index = [2, 3, 4],
         cells = [[Some 2, Some 3, Some 1], [Some 3, Some 2, Some 2], [Some 4, Some 4, Some 3]] \<rparr>"
  by (simp add: dropna_rows_def df_three_def complete_row_def)

lemma df_three_cleaned_pearson_matrix:
  "corr_pearson (dropna_rows df_three)
     = \<lparr> columns = [''A'', ''B'', ''C''], index = [''A'', ''B'', ''C''],
         cells = [[Some 1, Some (1/2), Some 1], [Some (1/2), Some 1, Some (1/2)],
                  [Some 1, Some (1/2), Some 1]] \<rparr>"
  unfolding df_three_cleaned
  by (simp add: corr_pearson_def nancorr_pair_def column_of_def Let_def
      sum_sq_dev_def sum_dev_products_def power2_eq_square)










lemma df_ranked_wf: "well_formed df_ranked"
  by (simp add: well_formed_def df_ranked_def)

lemma df_ranked_listwise:
  "filter (\<lambda>r. None \<notin> set r) (cells df_ranked)
     = [[Some 1, Some 5, Some 3], [Some 2, Some 1, Some 30], [Some 10, Some 7, Some 300]]"
  by (simp add: df_ranked_def)

lemma df_ranked_values:
  "complete_values df_ranked 0 = [1, 2, 10]"
  "complete_values df_ranked (Suc 0) = [5, 1, 7]"
  "complete_values df_ranked (Suc (Suc 0)) = [3, 30, 300]"
  by (simp_all add: complete_values_def listwise_rows_filter df_ranked_listwise)

lemma df_ranked_ranks:
  "rank_column df_ranked 0 = [1, 2, 3]"
  "rank_column df_ranked (Suc 0) = [2, 1, 3]"
  "rank_column df_ranked (Suc (Suc 0)) = [1, 2, 3]"
  by (simp_all add: rank_column_def df_ranked_values rankdata_def)

lemma df_ranked_not_degenerate: "\<not> spearman_degenerate df_ranked"
  by (simp add: spearman_degenerate_def listwise_rows_filter df_ranked_listwise
      df_ranked_values constant_column_def)

lemma df_ranked_spearman:
  "spearman_on_complete_rows df_ranked
     = \<lparr> columns = [''A'', ''B'', ''C''], index = [''A'', ''B'', ''C''],
         cells = [[Some 1, Some (1/2), Some 1], [Some (1/2), Some 1, Some (1/2)],
                  [Some 1, Some (1/2), Some 1]] \<rparr>"
proof -
  have c: "columns df_ranked = [''A'', ''B'', ''C'']" by (simp add: df_ranked_def)
  show ?thesis
    by (simp add: spearman_on_complete_rows_def df_ranked_not_degenerate c df_ranked_ranks
        corr_entry_examples labelled_def)
qed

section \<open>Spearman correlation drops incomplete rows\<close>

text \<open>
  Claim C7. For the Spearman method the rows of the cleaned table are the rows of the
  input without any missing cell, and the matrix is computed from these rows alone: for a
  table of at least two assets it is the Spearman matrix written out on the complete
  rows, whose entry for two of three or more assets is the coefficient of the ranks of
  their numbers in the complete rows. When no row is left the result is the matrix of
  undefined entries with one row and one column per input asset; no error is raised.
\<close>

theorem spearman_complete_cases:
  assumes "well_formed df"
  shows "cells (dropna_rows df) = filter (\<lambda>r. None \<notin> set r) (cells df)
       \<and> calculate_correlation df Spearman = calculate_correlation (dropna_rows df) Spearman
       \<and> (2 \<le> length (columns df) \<longrightarrow>
            calculate_correlation df Spearman = Inr (spearman_on_complete_rows df))
       \<and> (3 \<le> length (columns df) \<and> \<not> spearman_degenerate df \<longrightarrow>
            (\<forall>i<length (columns df). \<forall>j<length (columns df).
               \<exists>m. calculate_correlation df Spearman = Inr m
                 \<and> cells m ! i ! j
                     = corr_entry
                         (rankdata (map (\<lambda>r. the (r ! i)) (filter (\<lambda>r. None \<notin> set r) (cells df))))
                         (rankdata (map (\<lambda>r. the (r ! j)) (filter (\<lambda>r. None \<notin> set r) (cells df))))))
       \<and> (cells (dropna_rows df) = [] \<longrightarrow>
            calculate_correlation df Spearman
              = Inr \<lparr> columns = columns df, index = columns df,
                      cells = replicate (length (columns df)) (replicate (length (columns df)) None) \<rparr>)"
proof (intro conjI impI allI)
  show "cells (dropna_rows df) = filter (\<lambda>r. None \<notin> set r) (cells df)"
    using cells_dropna_rows[OF assms] by (simp add: listwise_rows_filter)
  show "calculate_correlation df Spearman = calculate_correlation (dropna_rows df) Spearman"
    by (simp add: calculate_correlation_def dropna_rows_idem Let_def)
next
  assume "2 \<le> length (columns df)"
  then show "calculate_correlation df Spearman = Inr (spearman_on_complete_rows df)"
    by (rule spearman_value[OF assms])
next
  fix i j
  assume h: "3 \<le> length (columns df) \<and> \<not> spearman_degenerate df"
    and i: "i < length (columns df)" and j: "j < length (columns df)"
  from spearman_entry[OF assms _ _ i j] h
  show "\<exists>m. calculate_correlation df Spearman = Inr m
          \<and> cells m ! i ! j
              = corr_entry
                  (rankdata (map (\<lambda>r. the (r ! i)) (filter (\<lambda>r. None \<notin> set r) (cells df))))
                  (rankdata (map (\<lambda>r. the (r ! j)) (filter (\<lambda>r. None \<notin> set r) (cells df))))"
    by (simp add: rank_column_def complete_values_def listwise_rows_filter)
next
  assume "cells (dropna_rows df) = []"
  then show "calculate_correlation df Spearman
              = Inr \<lparr> columns = columns df, index = columns df,
                      cells = replicate (length (columns df)) (replicate (length (columns df)) None) \<rparr>"
    by (simp add: calculate_correlation_def frame_empty_def filled_def labelled_def)
qed

theorem spearman_complete_cases_witness:
  "cells (dropna_rows df_ranked)
     = [[Some 1, Some 5, Some 3], [Some 2, Some 1, Some 30], [Some 10, Some 7, Some 300]]
   \<and> calculate_correlation df_ranked Spearman
     = Inr \<lparr> columns = [''A'', ''B'', ''C''], index = [''A'', ''B'', ''C''],
             cells = [[Some 1, Some (1/2), Some 1], [Some (1/2), Some 1, Some (1/2)],
                      [Some 1, Some (1/2), Some 1]] \<rparr>
   \<and> (\<exists>m. calculate_correlation df_ranked Spearman = Inr m
          \<and> cells m ! 1 ! 2 = corr_entry (rankdata [5, 1, 7]) (rankdata [3, 30, 300]))
   \<and> calculate_correlation df_gaps Spearman
     = Inr \<lparr> columns = [''A'', ''B''], index = [''A'', ''B''],
             cells = [[None, None], [None, None]] \<rparr>"
proof -
  have n2: "2 \<le> length (columns df_ranked)"
    and n3: "3 \<le> length (columns df_ranked) \<and> \<not> spearman_degenerate df_ranked"
    and i: "1 < length (columns df_ranked)" and j: "2 < length (columns df_ranked)"
    using df_ranked_not_degenerate by (simp_all add: df_ranked_def)
  note t = spearman_complete_cases[OF df_ranked_wf]
  from t have r: "cells (dropna_rows df_ranked)
     = [[Some 1, Some 5, Some 3], [Some 2, Some 1, Some 30], [Some 10, Some 7, Some 300]]"
    by (simp add: df_ranked_listwise)
  from t n2
  have "calculate_correlation df_ranked Spearman = Inr (spearman_on_complete_rows df_ranked)"
    by blast
  then have a: "calculate_correlation df_ranked Spearman
     = Inr \<lparr> columns = [''A'', ''B'', ''C''], index = [''A'', ''B'', ''C''],
             cells = [[Some 1, Some (1/2), Some 1], [Some (1/2), Some 1, Some (1/2)],
                      [Some 1, Some (1/2), Some 1]] \<rparr>"
    by (simp add: df_ranked_spearman)
  from t n3 i j
  have "\<exists>m. calculate_correlation df_ranked Spearman = Inr m
          \<and> cells m ! 1 ! 2
              = corr_entry
                  (rankdata (map (\<lambda>r. the (r ! 1))
                     (filter (\<lambda>r. None \<notin> set r) (cells df_ranked))))
                  (rankdata (map (\<lambda>r. the (r ! 2))
                     (filter (\<lambda>r. None \<notin> set r) (cells df_ranked))))"
    by blast
  then have e: "\<exists>m. calculate_correlation df_ranked Spearman = Inr m
          \<and> cells m ! 1 ! 2 = corr_entry (rankdata [5, 1, 7]) (rankdata [3, 30, 300])"
    by (simp add: df_ranked_listwise)
  have w: "well_formed df_gaps" by (simp add: well_formed_def df_gaps_def)
  have g: "cells (dropna_rows df_gaps) = []"
    by (simp add: dropna_rows_def df_gaps_def complete_row_def)
  from spearman_complete_cases[OF w] g
  have "calculate_correlation df_gaps Spearman
          = Inr \<lparr> columns = columns df_gaps, index = columns df_gaps,
                  cells = replicate (length (columns df_gaps))
                            (replicate (length (columns df_gaps)) None) \<rparr>"
    by blast
  then have b: "calculate_correlation df_gaps Spearman
     = Inr \<lparr> columns = [''A'', ''B''], index = [''A'', ''B''],
             cells = [[None, None], [None, None]] \<rparr>"
    by (simp add: df_gaps_def numeral_2_eq_2)
  from r a e b show ?thesis by blast
qed

section \<open>Pairwise against listwise deletion\<close>



section \<open>Alignment and the page's checks\<close>

text \<open>
  Claim C5, as the code has it. The Spearman method keeps exactly the days on which every
  asset has a value, in order, and computes its matrix on them; the Pearson method
  computes each entry on the days on which the two assets of the pair have a value. The
  page stops with a message exactly when fewer than two assets are selected or the
  fetched table is empty or has fewer than two columns; in every other case it shows a
  matrix and raises no error, and with at most one common day the Spearman matrix has
  undefined entries only.
\<close>

theorem alignment_by_complete_rows:
  "index (dropna_rows df)
     = map fst (filter (\<lambda>(t, r). None \<notin> set r) (zip (index df) (cells df)))
   \<and> (correlation_page selected df method = Inl Stopped
        \<longleftrightarrow> length selected < 2 \<or> frame_empty df \<or> length (columns df) < 2)
   \<and> (2 \<le> length selected \<and> \<not> frame_empty df \<and> 2 \<le> length (columns df) \<longrightarrow>
        (\<exists>m. correlation_page selected df method = Inr m)
        \<and> (cells (dropna_rows df) = [] \<longrightarrow>
             correlation_page selected df Spearman = Inr (filled (columns df) None))
        \<and> (well_formed df \<longrightarrow>
             cells (dropna_rows df) = listwise_rows df
             \<and> correlation_page selected df Spearman = Inr (spearman_on_complete_rows df)
             \<and> (length (listwise_rows df) \<le> 1 \<longrightarrow>
                  correlation_page selected df Spearman = Inr (filled (columns df) None))
             \<and> (\<forall>i<length (columns df). \<forall>j<length (columns df).
                  \<exists>m. correlation_page selected df Pearson = Inr m
                    \<and> cells m ! i ! j = pearson_of_pairs (pair_values df (max i j) (min i j)))))"
proof (intro conjI impI allI)
  show "index (dropna_rows df)
     = map fst (filter (\<lambda>(t, r). None \<notin> set r) (zip (index df) (cells df)))"
    by (rule index_dropna_rows)
  show "correlation_page selected df method = Inl Stopped
        \<longleftrightarrow> length selected < 2 \<or> frame_empty df \<or> length (columns df) < 2"
  proof (cases "length selected < 2 \<or> frame_empty df \<or> length (columns df) < 2")
    case True
    then show ?thesis by (auto simp: correlation_page_def)
  next
    case False
    then have "2 \<le> length (columns df)" by simp
    from calculate_correlation_no_failure[OF this, of "method"] False
    show ?thesis by (auto simp: correlation_page_def)
  qed
next
  assume h: "2 \<le> length selected \<and> \<not> frame_empty df \<and> 2 \<le> length (columns df)"
  then have page: "correlation_page selected df x = calculate_correlation df x" for x
    by (auto simp: correlation_page_def)
  show "\<exists>m. correlation_page selected df method = Inr m"
    using h calculate_correlation_no_failure[of df "method"] by (simp add: page)
  {
    assume "cells (dropna_rows df) = []"
    then show "correlation_page selected df Spearman = Inr (filled (columns df) None)"
      by (simp add: page calculate_correlation_def frame_empty_def Let_def)
  }
  assume w: "well_formed df"
  show "cells (dropna_rows df) = listwise_rows df" by (rule cells_dropna_rows[OF w])
  show "correlation_page selected df Spearman = Inr (spearman_on_complete_rows df)"
    using h by (simp add: page spearman_value[OF w])
  {
    assume "length (listwise_rows df) \<le> 1"
    then show "correlation_page selected df Spearman = Inr (filled (columns df) None)"
      using h by (simp add: page spearman_few_rows[OF w])
  }
  fix i j assume "i < length (columns df)" "j < length (columns df)"
  then show "\<exists>m. correlation_page selected df Pearson = Inr m
                    \<and> cells m ! i ! j = pearson_of_pairs (pair_values df (max i j) (min i j))"
    by (simp add: page pearson_value_entry)
qed

theorem alignment_by_complete_rows_witness:
  "index (dropna_rows df_days) = [3, 4, 5]
   \<and> correlation_page [''A'', ''B''] df_days Spearman = Inr (filled [''A'', ''B''] (Some (1/2)))
   \<and> correlation_page [''A'', ''B''] df_gaps Spearman = Inr (filled [''A'', ''B''] None)"
proof -
  have 1: "map fst (filter (\<lambda>(t, r). None \<notin> set r) (zip (index df_days) (cells df_days))) = [3, 4, 5]"
    by (simp add: df_days_def)
  have 2: "2 \<le> length [''A'', ''B''] \<and> \<not> frame_empty df_days \<and> 2 \<le> length (columns df_days)"
    by (simp add: df_days_def frame_empty_def)
  have 3: "2 \<le> length [''A'', ''B''] \<and> \<not> frame_empty df_gaps \<and> 2 \<le> length (columns df_gaps)"
    by (simp add: df_gaps_def frame_empty_def)
  have 4: "cells (dropna_rows df_gaps) = []"
    by (simp add: dropna_rows_def df_gaps_def complete_row_def)
  have 5: "columns df_gaps = [''A'', ''B'']" by (simp add: df_gaps_def)
  from alignment_by_complete_rows[of df_days "[''A'', ''B'']" Spearman] 1 2 df_days_wf
  have a: "index (dropna_rows df_days) = [3, 4, 5]
           \<and> correlation_page [''A'', ''B''] df_days Spearman
               = Inr (filled [''A'', ''B''] (Some (1/2)))"
    by (simp add: df_days_spearman)
  from alignment_by_complete_rows[of df_gaps "[''A'', ''B'']" Spearman] 3 4 5
  have b: "correlation_page [''A'', ''B''] df_gaps Spearman = Inr (filled [''A'', ''B''] None)"
    by simp
  from a b show ?thesis by blast
qed

text \<open>
  The claim as the specification words it has the operation fail when no common row is
  left, and every operation keep the common days only. For two assets without a common
  day the page returns a matrix of undefined entries under either method; and for three
  assets the Pearson entry of \<open>A\<close> and \<open>B\<close> is 0.8, computed with the first day, on which
  \<open>C\<close> is missing, where the table of the common days gives 0.5.
\<close>

theorem alignment_no_error_counterexample:
  "correlation_page [''A'', ''B''] df_gaps Spearman
     = Inr \<lparr> columns = [''A'', ''B''], index = [''A'', ''B''],
             cells = [[None, None], [None, None]] \<rparr>
   \<and> correlation_page [''A'', ''B''] df_gaps Pearson
     = Inr \<lparr> columns = [''A'', ''B''], index = [''A'', ''B''],
             cells = [[None, None], [None, None]] \<rparr>
   \<and> correlation_page [''A'', ''B'', ''C''] df_three Pearson
     = Inr \<lparr> columns = [''A'', ''B'', ''C''], index = [''A'', ''B'', ''C''],
             cells = [[Some 1, Some (4/5), Some 1], [Some (4/5), Some 1, Some (1/2)],
                      [Some 1, Some (1/2), Some 1]] \<rparr>
   \<and> correlation_page [''A'', ''B'', ''C''] (dropna_rows df_three) Pearson
     = Inr \<lparr> columns = [''A'', ''B'', ''C''], index = [''A'', ''B'', ''C''],
             cells = [[Some 1, Some (1/2), Some 1], [Some (1/2), Some 1, Some (1/2)],
                      [Some 1, Some (1/2), Some 1]] \<rparr>"
proof -
  have g: "correlation_page [''A'', ''B''] df_gaps Spearman
     = Inr \<lparr> columns = [''A'', ''B''], index = [''A'', ''B''],
             cells = [[None, None], [None, None]] \<rparr>
   \<and> correlation_page [''A'', ''B''] df_gaps Pearson
     = Inr \<lparr> columns = [''A'', ''B''], index = [''A'', ''B''],
             cells = [[None, None], [None, None]] \<rparr>"
    by (simp add: correlation_page_def calculate_correlation_def df_gaps_def frame_empty_def
      dropna_rows_def complete_row_def filled_def labelled_def numeral_2_eq_2
      corr_pearson_def nancorr_pair_def column_of_def sum_sq_dev_def Let_def upt_rec)
  have t: "\<not> frame_empty df_three \<and> \<not> frame_empty (dropna_rows df_three)
           \<and> columns df_three = [''A'', ''B'', ''C'']"
    by (simp add: frame_empty_def df_three_cleaned) (simp add: df_three_def)
  have p: "correlation_page [''A'', ''B'', ''C''] df_three Pearson = Inr (corr_pearson df_three)"
    "correlation_page [''A'', ''B'', ''C''] (dropna_rows df_three) Pearson
       = Inr (corr_pearson (dropna_rows df_three))"
    using t by (simp_all add: correlation_page_def calculate_correlation_def)
  from g p show ?thesis
    by (simp only: df_three_pearson_matrix df_three_cleaned_pearson_matrix)
qed

section \<open>Shape of the correlation matrix\<close>




text \<open>
  For exactly two assets \<open>spearmanr\<close> returns one number, and every cell of the table
  built from it, the diagonal included, holds that number.
\<close>

lemma spearman_two_assets_fills_scalar:
  "calculate_correlation df_two Spearman
     = Inr \<lparr> columns = [''A'', ''B''], index = [''A'', ''B''],
             cells = [[Some (1/2), Some (1/2)], [Some (1/2), Some (1/2)]] \<rparr>"
  by (simp add: calculate_correlation_def df_two_def dropna_rows_def complete_row_def
      frame_empty_def column_of_def spearmanr_def constant_column_def corrcoef_def corr_entry_def
      rankdata_def cov_def sum_dev_products_def fclip_def filled_def labelled_def Let_def
      numeral_2_eq_2)

end
